theory Spec2Isabelle
  imports Main
begin

section \<open>Python values\<close>

text \<open>
  The sources are Python. On the paths modelled here they can raise in two ways: an
  attribute read on \<open>None\<close>, or a string method called on a value that has none; and a
  module whose text does not parse.
\<close>

datatype py_error = AttributeError | SyntaxError

text \<open>
  The values a form's \<open>cleaned_data\<close> dictionary holds, as far as this module reads or
  writes them.
\<close>

datatype pyval = PyNone | PyBool bool | PyInt int | PyStr string | PyList "pyval list"

text \<open>Python's truth value of an object, as \<open>if x:\<close> and \<open>x or y\<close> test it.\<close>

fun truthy :: "pyval \<Rightarrow> bool" where
  "truthy PyNone = False"
| "truthy (PyBool b) = b"
| "truthy (PyInt i) = (i \<noteq> 0)"
| "truthy (PyStr s) = (s \<noteq> [])"
| "truthy (PyList vs) = (vs \<noteq> [])"

section \<open>String primitives\<close>

text \<open>
  A Python \<open>str\<close> is modelled as a \<open>string\<close>, one \<open>char\<close> per code point, so the model
  covers the code points below 256. \<open>isspace\<close> is the whitespace test \<open>str.strip()\<close>
  applies when called without arguments: TAB, LF, VT, FF, CR, the separators FS, GS, RS
  and US, the space, NEL and the no-break space.
\<close>

definition isspace :: "char \<Rightarrow> bool" where
  "isspace c = (of_char c \<in> {9, 10, 11, 12, 13, 28, 29, 30, 31, 32, 133, 160 :: nat})"

text \<open>\<open>s.strip()\<close>: the string without its leading and trailing whitespace.\<close>

definition strip :: "string \<Rightarrow> string" where
  "strip s = rev (dropWhile isspace (rev (dropWhile isspace s)))"

text \<open>
  \<open>s.split('\n')\<close>: the pieces between the newline characters, one more than there are
  newlines; the empty string gives one empty piece.
\<close>

fun split_nl :: "string \<Rightarrow> string list" where
  "split_nl [] = [[]]"
| "split_nl (c # cs) =
     (if c = CHR 0x0A then [] # split_nl cs
      else (case split_nl cs of [] \<Rightarrow> [[c]] | l # ls \<Rightarrow> (c # l) # ls))"

text \<open>\<open>'\n'.join(xs)\<close>.\<close>

fun join_nl :: "string list \<Rightarrow> string" where
  "join_nl [] = []"
| "join_nl [x] = x"
| "join_nl (x # y # ys) = x @ CHR 0x0A # join_nl (y # ys)"

section \<open>Entities\<close>

text \<open>
  The models module is not part of the sources at hand; the records below hold the
  attributes the admin module reads. A relation that is unset is \<open>None\<close>.
\<close>

record named_entity =
  name :: string

record organization = named_entity +
  pk :: "int option"
  core_values :: "string list"

section \<open>OrganizationAdminForm\<close>

text \<open>
  \<open>__init__\<close>, lines 24 to 28: the value assigned to the \<open>initial\<close> of the
  \<open>core_values_text\<close> field. The field is declared without an initial value, so it is
  \<open>None\<close> unless the guarded assignment runs. The guard tests the truth value of the
  primary key and of the list.
\<close>

definition list_to_text :: "string list \<Rightarrow> string" where
  "list_to_text vs = join_nl vs"

definition form_init :: "organization \<Rightarrow> string option" where
  "form_init instance =
     (if (case pk instance of None \<Rightarrow> False | Some k \<Rightarrow> k \<noteq> 0) \<and> core_values instance \<noteq> []
      then Some (list_to_text (core_values instance))
      else None)"

text \<open>
  \<open>clean\<close>, lines 30 to 38. \<open>text_to_list\<close> is the branch of lines 34 to 37 for a string
  value of \<open>core_values_text\<close>: a string is true when it is not empty, and the list
  comprehension keeps the stripped form of every piece whose stripped form is not empty.
\<close>

definition text_to_list :: "string \<Rightarrow> string list" where
  "text_to_list core_values_text =
     (if core_values_text \<noteq> []
      then map strip (filter (\<lambda>v. strip v \<noteq> []) (split_nl core_values_text))
      else [])"

text \<open>
  \<open>cleaned_data\<close> is the dictionary \<open>super().clean()\<close> returns. \<open>get\<close> defaults to the
  empty string when the key is missing. A value that is true and no string has no
  \<open>split\<close> method.
\<close>

definition clean :: "(string \<rightharpoonup> pyval) \<Rightarrow> py_error + (string \<rightharpoonup> pyval)" where
  "clean cleaned_data =
     (let core_values_text =
        (case cleaned_data ''core_values_text'' of None \<Rightarrow> PyStr [] | Some v \<Rightarrow> v)
      in if truthy core_values_text
         then (case core_values_text of
                 PyStr t \<Rightarrow>
                   Inr (cleaned_data(''core_values'' \<mapsto> PyList (map PyStr (text_to_list t))))
               | _ \<Rightarrow> Inl AttributeError)
         else Inr (cleaned_data(''core_values'' \<mapsto> PyList [])))"

text \<open>
  The words of the specification for the same transformation: split on newline, trim each
  line, discard the lines that are empty after trimming, keep the survivors in order.
\<close>

definition spec_text_to_list :: "string \<Rightarrow> string list" where
  "spec_text_to_list text = filter (\<lambda>l. l \<noteq> []) (map strip (split_nl text))"

text \<open>The entries of a list that are not empty once trimmed, trimmed, in their order.\<close>

definition nonempty_trimmed :: "string list \<Rightarrow> string list" where
  "nonempty_trimmed vs = filter (\<lambda>l. l \<noteq> []) (map strip vs)"

section \<open>Display helpers of TeamDeskPlanAdmin and TeamDeskPlanReviewAdmin\<close>

text \<open>
  A model instance is always true, so \<open>if obj.team_desk\<close> tests that the relation is
  set. \<open>full_name\<close> stands for the result of the user's \<open>get_full_name()\<close>, which belongs
  to the framework.
\<close>

record plan =
  organization :: "organization option"

record team_desk_plan =
  organization :: "organization option"
  team_desk :: "named_entity option"
  leo_eo_plan :: "plan option"

record user =
  full_name :: string
  username :: string

record organization_user =
  user :: "user option"

record team_desk_plan_review =
  plan :: "team_desk_plan option"
  reviewer :: "organization_user option"

definition get_team_desk_name :: "team_desk_plan \<Rightarrow> py_error + string" where
  "get_team_desk_name obj =
     (case team_desk obj of Some td \<Rightarrow> Inr (name td) | None \<Rightarrow> Inr ''N/A'')"

definition get_organization_name :: "team_desk_plan \<Rightarrow> py_error + string" where
  "get_organization_name obj =
     (case team_desk_plan.organization obj of
        Some org \<Rightarrow> Inr (name org)
      | None \<Rightarrow> Inr ''N/A'')"

definition get_leo_eo_plan_name :: "team_desk_plan \<Rightarrow> py_error + string" where
  "get_leo_eo_plan_name obj =
     (case leo_eo_plan obj of
        None \<Rightarrow> Inr ''N/A''
      | Some p \<Rightarrow>
          (case plan.organization p of
             None \<Rightarrow> Inr ''N/A''
           | Some org \<Rightarrow> Inr (name org @ '' Plan'')))"

text \<open>
  \<open>get_plan_info\<close>, lines 322 to 325: the guard tests the plan and its team or desk; the
  formatted string then reads \<open>obj.plan.organization.name\<close>, which raises when the
  plan's organization is \<open>None\<close>.
\<close>

definition get_plan_info :: "team_desk_plan_review \<Rightarrow> py_error + string" where
  "get_plan_info obj =
     (case plan obj of
        None \<Rightarrow> Inr ''N/A''
      | Some p \<Rightarrow>
          (case team_desk p of
             None \<Rightarrow> Inr ''N/A''
           | Some td \<Rightarrow>
               (case team_desk_plan.organization p of
                  None \<Rightarrow> Inl AttributeError
                | Some org \<Rightarrow> Inr (name td @ '' ('' @ name org @ '')''))))"

text \<open>\<open>a or b\<close> is \<open>a\<close> when \<open>a\<close> is true, a non-empty string here, and \<open>b\<close> otherwise.\<close>

definition get_reviewer_name :: "team_desk_plan_review \<Rightarrow> py_error + string" where
  "get_reviewer_name obj =
     (case reviewer obj of
        None \<Rightarrow> Inr ''N/A''
      | Some r \<Rightarrow>
          (case user r of
             None \<Rightarrow> Inr ''N/A''
           | Some u \<Rightarrow> Inr (if full_name u \<noteq> [] then full_name u else username u)))"

section \<open>Migrations 0013 and 0016\<close>

text \<open>
  A migration is its list of dependencies and its list of operations. A field is its
  class and the keyword arguments it is built with; a keyword that is not given has the
  framework's default, which is \<open>False\<close> for \<open>null\<close>.
\<close>

datatype field_class = ManyToManyField | JSONField | ForeignKey | CharField

record model_field =
  field_class :: field_class
  kwargs :: "(string \<times> pyval) list"

datatype operation =
    AddField string string model_field
  | RemoveField string string
  | AlterField string string model_field
  | RenameField string string string

record migration =
  dependencies :: "(string \<times> string) list"
  operations :: "operation list"

fun is_add_field :: "operation \<Rightarrow> bool" where
  "is_add_field (AddField m n f) = True"
| "is_add_field (RemoveField m n) = False"
| "is_add_field (AlterField m n f) = False"
| "is_add_field (RenameField m old new) = False"

fun op_model_name :: "operation \<Rightarrow> string" where
  "op_model_name (AddField m n f) = m"
| "op_model_name (RemoveField m n) = m"
| "op_model_name (AlterField m n f) = m"
| "op_model_name (RenameField m old new) = m"

fun op_name :: "operation \<Rightarrow> string" where
  "op_name (AddField m n f) = n"
| "op_name (RemoveField m n) = n"
| "op_name (AlterField m n f) = n"
| "op_name (RenameField m old new) = old"

fun op_field :: "operation \<Rightarrow> model_field option" where
  "op_field (AddField m n f) = Some f"
| "op_field (RemoveField m n) = None"
| "op_field (AlterField m n f) = Some f"
| "op_field (RenameField m old new) = None"

definition nullable :: "model_field \<Rightarrow> bool" where
  "nullable f = (case map_of (kwargs f) ''null'' of None \<Rightarrow> False | Some v \<Rightarrow> truthy v)"

definition migration_0013 :: migration where
  "migration_0013 =
     \<lparr>dependencies = [(''organizations'', ''0012_alter_plan_type'')],
      operations =
        [AddField ''plan'' ''selected_objectives''
           \<lparr>field_class = ManyToManyField,
            kwargs =
              [(''blank'', PyBool True),
               (''help_text'', PyStr ''All objectives selected for this plan''),
               (''related_name'', PyStr ''selected_in_plans''),
               (''to'', PyStr ''organizations.strategicobjective'')]\<rparr>]\<rparr>"

text \<open>
  A migration module is read as a whole before any of it runs: the class statement it
  writes, and the top-level lines that are no Python. One such line makes the import
  raise, and then the module defines no \<open>Migration\<close> and no list of operations.
\<close>

record migration_module =
  migration_class :: migration
  unparsable :: "string list"

definition import_module :: "migration_module \<Rightarrow> py_error + migration" where
  "import_module m = (if unparsable m = [] then Inr (migration_class m) else Inl SyntaxError)"

definition module_0013 :: migration_module where
  "module_0013 = \<lparr>migration_class = migration_0013, unparsable = []\<rparr>"

text \<open>
  The module of migration 0016 as it stands: the class statement of lines 6 to 16, and
  line 17, which is the text \<open></anoltAction>\<close>.
\<close>

definition module_0016 :: migration_module where
  "module_0016 =
     \<lparr>migration_class =
        \<lparr>dependencies = [(''organizations'', ''0015_detailactivity_teamdeskplan_and_more'')],
         operations =
           [AddField ''plan'' ''selected_objectives_weights''
              \<lparr>field_class = JSONField,
               kwargs =
                 [(''blank'', PyBool True),
                  (''help_text'',
                   PyStr ''Custom weights assigned by planner for each selected objective {objective_id: weight}''),
                  (''null'', PyBool True)]\<rparr>]\<rparr>,
      unparsable = [''</anoltAction>'']\<rparr>"

section \<open>Facts about the string primitives\<close>

lemma split_nl_not_Nil: "split_nl s \<noteq> []"
  by (induction s) (auto split: list.splits)

lemma split_nl_pieces: "l \<in> set (split_nl s) \<Longrightarrow> CHR 0x0A \<notin> set l \<and> set l \<subseteq> set s"
proof (induction s arbitrary: l)
  case Nil
  then show ?case by simp
next
  case (Cons c cs)
  show ?case
  proof (cases "c = CHR 0x0A")
    case True
    with Cons show ?thesis by auto
  next
    case False
    obtain p ps where ps: "split_nl cs = p # ps"
      using split_nl_not_Nil by (cases "split_nl cs") auto
    with False Cons.prems have "l = c # p \<or> l \<in> set ps" by auto
    then show ?thesis
    proof
      assume "l = c # p"
      moreover have "CHR 0x0A \<notin> set p \<and> set p \<subseteq> set cs"
        using Cons.IH [of p] ps by simp
      ultimately show ?thesis using False by auto
    next
      assume "l \<in> set ps"
      then have "CHR 0x0A \<notin> set l \<and> set l \<subseteq> set cs"
        using Cons.IH [of l] ps by simp
      then show ?thesis by auto
    qed
  qed
qed

lemma split_nl_line: "CHR 0x0A \<notin> set x \<Longrightarrow> split_nl x = [x]"
  by (induction x) auto

lemma split_nl_append: "CHR 0x0A \<notin> set x \<Longrightarrow> split_nl (x @ CHR 0x0A # r) = x # split_nl r"
  by (induction x) auto

lemma split_nl_join_nl:
  "xs \<noteq> [] \<Longrightarrow> \<forall>x\<in>set xs. CHR 0x0A \<notin> set x \<Longrightarrow> split_nl (join_nl xs) = xs"
  by (induction xs rule: join_nl.induct) (auto simp: split_nl_line split_nl_append)


lemma strip_blank: "\<forall>c\<in>set s. isspace c \<Longrightarrow> strip s = []"
proof -
  assume "\<forall>c\<in>set s. isspace c"
  then have "dropWhile isspace s = []" by simp
  then show ?thesis by (simp only: strip_def rev.simps dropWhile.simps)
qed




lemma filter_strip: "map strip (filter (\<lambda>v. strip v \<noteq> []) xs) = filter (\<lambda>l. l \<noteq> []) (map strip xs)"
  by (induction xs) auto

lemma text_to_list_lines:
  "text_to_list s = filter (\<lambda>l. l \<noteq> []) (map strip (split_nl s))"
proof (cases "s = []")
  case True
  then show ?thesis by (simp add: text_to_list_def strip_def)
next
  case False
  then show ?thesis by (simp add: text_to_list_def filter_strip)
qed

lemma text_to_list_join_nl:
  assumes "\<forall>x\<in>set xs. CHR 0x0A \<notin> set x"
  shows "text_to_list (join_nl xs) = filter (\<lambda>l. l \<noteq> []) (map strip xs)"
proof (cases "xs = []")
  case True
  then show ?thesis by (simp add: text_to_list_def)
next
  case False
  from False assms have "split_nl (join_nl xs) = xs" by (rule split_nl_join_nl)
  then show ?thesis by (simp add: text_to_list_lines)
qed



lemma text_to_list_blank:
  assumes "\<forall>c\<in>set s. isspace c"
  shows "text_to_list s = []"
proof -
  have "strip l = []" if "l \<in> set (split_nl s)" for l
  proof -
    from that have "set l \<subseteq> set s" by (simp add: split_nl_pieces)
    with assms have "\<forall>c\<in>set l. isspace c" by blast
    then show ?thesis by (rule strip_blank)
  qed
  then show ?thesis by (simp add: text_to_list_lines filter_empty_conv)
qed


lemma clean_str:
  "cleaned_data ''core_values_text'' = Some (PyStr t) \<Longrightarrow>
   clean cleaned_data =
     Inr (cleaned_data(''core_values'' \<mapsto> PyList (map PyStr (text_to_list t))))"
  by (simp add: clean_def text_to_list_def)

section \<open>The form's transformation: claims\<close>

text \<open>
  Claim C1. For every string held under \<open>core_values_text\<close>, \<open>clean\<close> stores under
  \<open>core_values\<close> the list the specification describes: the text split on newline, each
  line trimmed, the lines that are empty after trimming discarded, the others kept in
  their order, duplicates included and characters unchanged.
\<close>

theorem clean_core_values_spec:
  assumes "cleaned_data ''core_values_text'' = Some (PyStr t)"
  shows "clean cleaned_data =
    Inr (cleaned_data(''core_values'' \<mapsto> PyList (map PyStr (spec_text_to_list t))))"
  using assms by (simp add: clean_str text_to_list_lines spec_text_to_list_def)

text \<open>The theorem on a text with a blank line, a repeated entry and an upper-case one.\<close>

theorem clean_core_values_spec_witness:
  "clean [''core_values_text'' \<mapsto> PyStr '' b \<newline>\<newline>A\<newline>b''] =
     Inr [''core_values_text'' \<mapsto> PyStr '' b \<newline>\<newline>A\<newline>b'',
          ''core_values'' \<mapsto> PyList [PyStr ''b'', PyStr ''A'', PyStr ''b'']]"
  using clean_core_values_spec [of "[''core_values_text'' \<mapsto> PyStr '' b \<newline>\<newline>A\<newline>b'']"
      "'' b \<newline>\<newline>A\<newline>b''"]
  by (simp add: spec_text_to_list_def strip_def isspace_def)

text \<open>
  Claim C3. When the text is empty or holds whitespace only, \<open>clean\<close> stores the empty
  list; a text of blanks and newlines is not empty, so it takes the branch of the list
  comprehension and every piece is dropped there.
\<close>

theorem clean_blank_text:
  assumes "cleaned_data ''core_values_text'' = Some (PyStr t)"
    and "\<forall>c\<in>set t. isspace c"
  shows "clean cleaned_data = Inr (cleaned_data(''core_values'' \<mapsto> PyList []))"
  using assms by (simp add: clean_str text_to_list_blank)

text \<open>The theorem on a text of blanks around a newline, and on the empty text.\<close>

theorem clean_blank_text_witness:
  "clean [''core_values_text'' \<mapsto> PyStr ''  \<newline>  ''] =
     Inr [''core_values_text'' \<mapsto> PyStr ''  \<newline>  '', ''core_values'' \<mapsto> PyList []]
   \<and> clean [''core_values_text'' \<mapsto> PyStr []] =
     Inr [''core_values_text'' \<mapsto> PyStr [], ''core_values'' \<mapsto> PyList []]"
  using clean_blank_text [of "[''core_values_text'' \<mapsto> PyStr ''  \<newline>  '']" "''  \<newline>  ''"]
    clean_blank_text [of "[''core_values_text'' \<mapsto> PyStr []]" "[]"]
  by (simp add: isspace_def)

text \<open>
  Claim C4. The example of the specification: the text with \<open>Integrity\<close> between blanks,
  \<open>Excellence\<close>, an empty line and a line of blanks gives the list of the two words, and
  that list is presented as the two words joined by a newline.
\<close>

theorem integrity_excellence_example:
  "clean [''core_values_text'' \<mapsto> PyStr ''  Integrity \<newline>Excellence\<newline>\<newline>  ''] =
     Inr [''core_values_text'' \<mapsto> PyStr ''  Integrity \<newline>Excellence\<newline>\<newline>  '',
          ''core_values'' \<mapsto> PyList [PyStr ''Integrity'', PyStr ''Excellence'']]
   \<and> text_to_list ''  Integrity \<newline>Excellence\<newline>\<newline>  '' = [''Integrity'', ''Excellence'']
   \<and> list_to_text [''Integrity'', ''Excellence''] = ''Integrity\<newline>Excellence''
   \<and> form_init \<lparr>name = ''Org'', pk = Some 1, core_values = [''Integrity'', ''Excellence'']\<rparr> =
       Some ''Integrity\<newline>Excellence''"
  by (simp add: clean_def text_to_list_def strip_def isspace_def list_to_text_def form_init_def)



text \<open>
  Claim C6, amended. For every list of strings none of which holds a newline, joining
  the list and converting the text back gives the entries that are not empty once
  trimmed, trimmed, in their order; the count is theirs.
\<close>

theorem list_round_trip:
  assumes "\<forall>v\<in>set vs. CHR 0x0A \<notin> set v"
  shows "text_to_list (list_to_text vs) = nonempty_trimmed vs"
  using assms by (simp add: list_to_text_def nonempty_trimmed_def text_to_list_join_nl)

text \<open>The theorem on a list with an empty entry, a blank one and a repeated one.\<close>

theorem list_round_trip_witness:
  "text_to_list (list_to_text ['' x '', [], ''y'', ''  '', ''x'']) = [''x'', ''y'', ''x'']
   \<and> nonempty_trimmed ['' x '', [], ''y'', ''  '', ''x''] = [''x'', ''y'', ''x'']"
  using list_round_trip [of "['' x '', [], ''y'', ''  '', ''x'']"]
  by (simp add: nonempty_trimmed_def strip_def isspace_def)

text \<open>
  Without the restriction the count is not kept: an entry that holds a newline comes
  back as two entries.
\<close>

theorem list_round_trip_newline_counterexample:
  "length (text_to_list (list_to_text [''a\<newline>b''])) \<noteq> length (nonempty_trimmed [''a\<newline>b''])"
  by (simp add: text_to_list_def list_to_text_def nonempty_trimmed_def strip_def isspace_def)

text \<open>
  Claim C7, amended. For an organization whose primary key is set and true and whose
  list of core values is not empty, \<open>__init__\<close> assigns the newline-joined list as the
  initial value of \<open>core_values_text\<close>. For an empty list, or without a primary key, the
  guard skips the assignment and the field keeps its declared initial value, which is
  none.
\<close>

theorem form_init_presents:
  "(pk instance = Some k \<and> k \<noteq> 0 \<and> core_values instance \<noteq> [] \<longrightarrow>
      form_init instance = Some (join_nl (core_values instance)))
   \<and> (core_values instance = [] \<or> pk instance = None \<or> pk instance = Some 0 \<longrightarrow>
      form_init instance = None)"
  by (auto simp: form_init_def list_to_text_def)

text \<open>The theorem on a saved organization with two core values, and on one with none.\<close>

theorem form_init_presents_witness:
  "form_init \<lparr>name = ''Org'', pk = Some 7, core_values = [''Integrity'', ''Excellence'']\<rparr> =
     Some ''Integrity\<newline>Excellence''
   \<and> form_init \<lparr>name = ''Org'', pk = Some 7, core_values = []\<rparr> = None"
  using form_init_presents [of "\<lparr>name = ''Org'', pk = Some 7, core_values = [''Integrity'', ''Excellence'']\<rparr>" 7]
    form_init_presents [of "\<lparr>name = ''Org'', pk = Some 7, core_values = []\<rparr>" 7]
  by simp

text \<open>
  For a saved organization with the empty list the initial value is not the joined
  string of the list: nothing is assigned.
\<close>

theorem form_init_empty_list_counterexample:
  "form_init \<lparr>name = ''Org'', pk = Some 1, core_values = []\<rparr> \<noteq> Some (list_to_text [])"
  by (simp add: form_init_def)

text \<open>
  Claim C8. \<open>clean\<close> changes no entry of \<open>cleaned_data\<close> but \<open>core_values\<close>: whenever it
  returns, every other key holds what it held before; and it returns unless the value
  under \<open>core_values_text\<close> is true and no string, which a text field never produces.
\<close>

theorem clean_frame:
  "(case clean cleaned_data of
      Inr cd' \<Rightarrow> \<forall>k. k \<noteq> ''core_values'' \<longrightarrow> cd' k = cleaned_data k
    | Inl e \<Rightarrow> \<exists>v. cleaned_data ''core_values_text'' = Some v \<and> truthy v \<and> (\<forall>t. v \<noteq> PyStr t))"
  by (auto simp: clean_def Let_def split: option.splits pyval.splits)

text \<open>The theorem on a dictionary of three entries, one of them an older list.\<close>

theorem clean_frame_witness:
  "clean [''name'' \<mapsto> PyStr ''Org'', ''core_values_text'' \<mapsto> PyStr ''new'',
          ''core_values'' \<mapsto> PyList [PyStr ''old'']] =
     Inr [''name'' \<mapsto> PyStr ''Org'', ''core_values_text'' \<mapsto> PyStr ''new'',
          ''core_values'' \<mapsto> PyList [PyStr ''new'']]"
  using clean_frame [of "[''name'' \<mapsto> PyStr ''Org'', ''core_values_text'' \<mapsto> PyStr ''new'',
          ''core_values'' \<mapsto> PyList [PyStr ''old'']]"]
  by (simp add: clean_def Let_def text_to_list_def strip_def isspace_def)

section \<open>Display helpers: claims\<close>

text \<open>
  The guarded hops: each helper returns \<open>N/A\<close> when a relation its guard tests is unset.
\<close>

lemma display_helpers_fallback:
  "(team_desk p = None \<longrightarrow> get_team_desk_name p = Inr ''N/A'')
   \<and> (team_desk_plan.organization p = None \<longrightarrow> get_organization_name p = Inr ''N/A'')
   \<and> (leo_eo_plan p = None \<or> (\<exists>l. leo_eo_plan p = Some l \<and> plan.organization l = None) \<longrightarrow>
        get_leo_eo_plan_name p = Inr ''N/A'')
   \<and> (plan obj = None \<or> (\<exists>q. plan obj = Some q \<and> team_desk q = None) \<longrightarrow>
        get_plan_info obj = Inr ''N/A'')"
  by (auto simp: get_team_desk_name_def get_organization_name_def get_leo_eo_plan_name_def
      get_plan_info_def)

text \<open>
  Claim C2. The claim asks that every display helper returns \<open>N/A\<close> when a relation on
  its path is unset. \<open>get_plan_info\<close> does not: for a review whose plan has a team or desk
  and no organization it raises, while \<open>get_organization_name\<close> returns \<open>N/A\<close> for that
  very plan.
\<close>

theorem get_plan_info_absent_organization:
  "get_plan_info
     \<lparr>plan = Some \<lparr>organization = None, team_desk = Some \<lparr>name = ''Desk''\<rparr>,
                   leo_eo_plan = None\<rparr>,
      reviewer = None\<rparr> = Inl AttributeError
   \<and> get_organization_name
     \<lparr>organization = None, team_desk = Some \<lparr>name = ''Desk''\<rparr>, leo_eo_plan = None\<rparr>
       = Inr ''N/A''"
  by (simp add: get_plan_info_def get_organization_name_def)

text \<open>
  Claim C10. \<open>get_reviewer_name\<close> returns the full name of the reviewer's user when it is
  not empty, the username when the full name is empty, and \<open>N/A\<close> when the reviewer or
  its user is unset.
\<close>

theorem get_reviewer_name_cases:
  "(reviewer obj = Some r \<and> user r = Some u \<and> full_name u \<noteq> [] \<longrightarrow>
      get_reviewer_name obj = Inr (full_name u))
   \<and> (reviewer obj = Some r \<and> user r = Some u \<and> full_name u = [] \<longrightarrow>
      get_reviewer_name obj = Inr (username u))
   \<and> (reviewer obj = None \<or> (reviewer obj = Some r \<and> user r = None) \<longrightarrow>
      get_reviewer_name obj = Inr ''N/A'')"
  by (auto simp: get_reviewer_name_def)

text \<open>The theorem on four reviews, one for each way through the helper.\<close>

theorem get_reviewer_name_cases_witness:
  "get_reviewer_name \<lparr>plan = None,
      reviewer = Some \<lparr>user = Some \<lparr>full_name = ''Ada Lovelace'', username = ''ada''\<rparr>\<rparr>\<rparr> =
     Inr ''Ada Lovelace''
   \<and> get_reviewer_name \<lparr>plan = None,
      reviewer = Some \<lparr>user = Some \<lparr>full_name = [], username = ''ada''\<rparr>\<rparr>\<rparr> = Inr ''ada''
   \<and> get_reviewer_name \<lparr>plan = None, reviewer = Some \<lparr>user = None\<rparr>\<rparr> = Inr ''N/A''
   \<and> get_reviewer_name \<lparr>plan = None, reviewer = None\<rparr> = Inr ''N/A''"
  using
    get_reviewer_name_cases [of "\<lparr>plan = None,
      reviewer = Some \<lparr>user = Some \<lparr>full_name = ''Ada Lovelace'', username = ''ada''\<rparr>\<rparr>\<rparr>"
      "\<lparr>user = Some \<lparr>full_name = ''Ada Lovelace'', username = ''ada''\<rparr>\<rparr>"
      "\<lparr>full_name = ''Ada Lovelace'', username = ''ada''\<rparr>"]
    get_reviewer_name_cases [of "\<lparr>plan = None,
      reviewer = Some \<lparr>user = Some \<lparr>full_name = [], username = ''ada''\<rparr>\<rparr>\<rparr>"
      "\<lparr>user = Some \<lparr>full_name = [], username = ''ada''\<rparr>\<rparr>"
      "\<lparr>full_name = [], username = ''ada''\<rparr>"]
    get_reviewer_name_cases [of "\<lparr>plan = None, reviewer = Some \<lparr>user = None\<rparr>\<rparr>"
      "\<lparr>user = None\<rparr>"]
    get_reviewer_name_cases [of "\<lparr>plan = None, reviewer = None\<rparr>"]
  by simp

section \<open>Migrations: claims\<close>

text \<open>
  The class statement written in the module of migration 0016 holds one operation, which
  adds the JSON field \<open>selected_objectives_weights\<close> to the model \<open>plan\<close> with \<open>null\<close>
  true.
\<close>

lemma module_0016_class_statement:
  "list_all is_add_field (operations (migration_class module_0016))
   \<and> map op_model_name (operations (migration_class module_0016)) = [''plan'']
   \<and> map op_name (operations (migration_class module_0016)) = [''selected_objectives_weights'']
   \<and> map (map_option field_class \<circ> op_field) (operations (migration_class module_0016)) =
       [Some JSONField]
   \<and> map (map_option nullable \<circ> op_field) (operations (migration_class module_0016)) =
       [Some True]"
  by (simp add: module_0016_def nullable_def)

text \<open>
  Claim C9. The claim asks that both migrations hold add-field operations only, 0013
  adding a many-to-many field and 0016 a JSON field with \<open>null\<close> true. Migration 0013
  imports and is as claimed: one operation, which adds the many-to-many field
  \<open>selected_objectives\<close> to the model \<open>plan\<close>. The module of migration 0016 does not
  import: its last line is no Python, so it raises and defines no operations at all.
\<close>

theorem migration_0016_import_fails:
  "import_module module_0016 = Inl SyntaxError
   \<and> import_module module_0013 = Inr migration_0013
   \<and> list_all is_add_field (operations migration_0013)
   \<and> map op_model_name (operations migration_0013) = [''plan'']
   \<and> map op_name (operations migration_0013) = [''selected_objectives'']
   \<and> map (map_option field_class \<circ> op_field) (operations migration_0013) = [Some ManyToManyField]"
  by (simp add: import_module_def module_0016_def module_0013_def migration_0013_def)

end
